theory Spec2Isabelle
  imports Main "HOL-Library.Word"
begin

section \<open>The art-commission canister: data model\<close>

text \<open>
  The canister of \<^verbatim>\<open>src/index.ts\<close> keeps three maps (artists, customers,
  commissions) and offers create, read and lifecycle operations on them. Every update
  call reads a commission out of the map, changes the copy it was given and writes the
  copy back with \<^verbatim>\<open>insert\<close>; a call that returns \<^verbatim>\<open>Err\<close> returns before
  the write. The model passes the three maps around as a record.

  A \<^verbatim>\<open>Principal\<close> is identified with its textual form, which is what the
  template strings of the error messages print. \<^verbatim>\<open>generateId()\<close> draws random
  bytes: the identifier it returns is an argument of the model's create functions.
  \<^verbatim>\<open>nat64\<close> is a 64-bit word. An \<^verbatim>\<open>int8\<close> field holds a JavaScript number
  inside the canister, modelled as \<open>int\<close>; \<open>int8\<close> below is the range of values the
  interface type lets a caller send. The decrement of \<^verbatim>\<open>requestRevision\<close> is the
  one of JavaScript numbers and does not wrap; it leaves the range only from \<open>-128\<close>,
  and no statement below rests on what happens there.
\<close>

datatype principal = Principal (toText: string)

record Artist =
  artistID :: principal
  artistName :: string
  price :: "64 word"
  number_of_revision :: int

record Customer =
  customerID :: principal
  customerName :: string

record Status =
  Pending :: bool
  Accepted :: bool
  Rejected :: bool
  ArtworkSubmitted :: bool
  Approved :: bool
  Cancelled :: bool

record Commission =
  commissionID :: principal
  customerID :: principal
  artistID :: principal
  price :: "64 word"
  remaining_revision :: int
  artURL :: string
  status :: Status

text \<open>
  The \<^verbatim>\<open>Error\<close> variant of \<^verbatim>\<open>src/index.ts\<close> has the first three cases.
  \<open>InvalidInput\<close> is returned only by the variant of the canister kept in
  \<^verbatim>\<open>src/smartcontract/index.ts\<close>, modelled in its own section below.
\<close>

datatype Error =
  NotFound string
  | NoRemainingRevision string
  | InvalidTransaction string
  | InvalidInput string

record state =
  artists :: "principal \<rightharpoonup> Artist"
  customers :: "principal \<rightharpoonup> Customer"
  commissions :: "principal \<rightharpoonup> Commission"

definition init :: state where
  "init = \<lparr>artists = Map.empty, customers = Map.empty, commissions = Map.empty\<rparr>"

definition int8 :: "int \<Rightarrow> bool" where
  "int8 n = (- 128 \<le> n \<and> n \<le> 127)"

section \<open>The guard\<close>

text \<open>
  \<^verbatim>\<open>checkCommissionValidity(status, methodType)\<close>: an \<^verbatim>\<open>if / else if\<close> chain
  assigns the reason, and the last statement wraps it into the message or returns
  \<^verbatim>\<open>"valid"\<close>.
\<close>

definition checkCommissionValidity :: "Status \<Rightarrow> string \<Rightarrow> string" where
  "checkCommissionValidity st methodType =
     (let commissionValidity =
        (if Cancelled st then ''commission has been cancelled''
         else if Approved st then ''commission has ended''
         else if Rejected st then ''commission has been rejected''
         else if \<not> Accepted st \<and>
                 (methodType \<noteq> ''accept commission'' \<and> methodType \<noteq> ''reject commission'')
           then ''commission has yet to be accepted''
         else if Accepted st \<and>
                 (methodType = ''accept commission'' \<or> methodType = ''reject commission'')
           then ''commission has been accepted''
         else if \<not> ArtworkSubmitted st \<and>
                 (methodType = ''approve commission'' \<or> methodType = ''request revision'')
           then ''artwork not finished''
         else ''valid'')
      in if commissionValidity \<noteq> ''valid''
         then ''cannot '' @ methodType @ '': '' @ commissionValidity
         else ''valid'')"

section \<open>The operations\<close>

definition createArtist ::
  "state \<Rightarrow> principal \<Rightarrow> string \<Rightarrow> 64 word \<Rightarrow> int \<Rightarrow> Artist \<times> state" where
  "createArtist s newID name p n =
     (let artist = \<lparr>Artist.artistID = newID, artistName = name, Artist.price = p,
                     number_of_revision = n\<rparr>
      in (artist, s\<lparr>artists := (artists s)(Artist.artistID artist \<mapsto> artist)\<rparr>))"

definition createCustomer :: "state \<Rightarrow> principal \<Rightarrow> string \<Rightarrow> Customer \<times> state" where
  "createCustomer s newID name =
     (let customer = \<lparr>Customer.customerID = newID, customerName = name\<rparr>
      in (customer, s\<lparr>customers := (customers s)(Customer.customerID customer \<mapsto> customer)\<rparr>))"

text \<open>
  \<^verbatim>\<open>createCommission\<close>: the object literal lists \<^verbatim>\<open>commissionID\<close> and
  \<^verbatim>\<open>customerID\<close>, spreads the artist (which brings \<^verbatim>\<open>artistID\<close> and
  \<^verbatim>\<open>price\<close>; its other two fields are not fields of a Commission) and then sets the
  remaining three fields.
\<close>

definition createCommission ::
  "state \<Rightarrow> principal \<Rightarrow> principal \<Rightarrow> principal \<Rightarrow> (Error + Commission) \<times> state" where
  "createCommission s newID aID cID =
     (case artists s aID of
        None \<Rightarrow> (Inl (NotFound (''cannot create the commission: artist='' @ toText aID
                                  @ '' not found'')), s)
      | Some artist \<Rightarrow>
          (case customers s cID of
             None \<Rightarrow> (Inl (NotFound (''cannot create the commission: customer='' @ toText cID
                                       @ '' not found'')), s)
           | Some customer \<Rightarrow>
               (let commission =
                      \<lparr>commissionID = newID, customerID = cID,
                       artistID = Artist.artistID artist, price = Artist.price artist,
                       remaining_revision = number_of_revision artist,
                       artURL = '''',
                       status = \<lparr>Pending = True, Accepted = False, Rejected = False,
                                 ArtworkSubmitted = False, Approved = False,
                                 Cancelled = False\<rparr>\<rparr>
                in (Inr commission, s\<lparr>commissions := (commissions s)(newID \<mapsto> commission)\<rparr>))))"

definition approveCommission :: "state \<Rightarrow> principal \<Rightarrow> (Error + Commission) \<times> state" where
  "approveCommission s cID =
     (case commissions s cID of
        None \<Rightarrow> (Inl (NotFound (''cannot approve commission: commission='' @ toText cID
                                  @ '' not found'')), s)
      | Some commission \<Rightarrow>
          (let commissionValidity =
                 checkCommissionValidity (status commission) ''approve commission''
           in if commissionValidity \<noteq> ''valid''
              then (Inl (InvalidTransaction commissionValidity), s)
              else (let commission' =
                          commission\<lparr>status := (status commission)\<lparr>Approved := True\<rparr>\<rparr>
                    in (Inr commission',
                        s\<lparr>commissions := (commissions s)(cID \<mapsto> commission')\<rparr>))))"

definition requestRevision :: "state \<Rightarrow> principal \<Rightarrow> (Error + Commission) \<times> state" where
  "requestRevision s cID =
     (case commissions s cID of
        None \<Rightarrow> (Inl (NotFound (''cannot request revision: commission='' @ toText cID
                                  @ '' not found'')), s)
      | Some commission \<Rightarrow>
          (let commissionValidity =
                 checkCommissionValidity (status commission) ''request revision''
           in if commissionValidity \<noteq> ''valid''
              then (Inl (InvalidTransaction commissionValidity), s)
              else if remaining_revision commission = 0
              then (Inl (NoRemainingRevision ''no more revision can be made''), s)
              else (let commission' =
                          commission\<lparr>remaining_revision := remaining_revision commission - 1,
                                     status := (status commission)\<lparr>ArtworkSubmitted := False\<rparr>\<rparr>
                    in (Inr commission',
                        s\<lparr>commissions := (commissions s)(cID \<mapsto> commission')\<rparr>))))"

definition acceptCommission :: "state \<Rightarrow> principal \<Rightarrow> (Error + Commission) \<times> state" where
  "acceptCommission s cID =
     (case commissions s cID of
        None \<Rightarrow> (Inl (NotFound (''cannot accept commission: commission='' @ toText cID
                                  @ '' not found'')), s)
      | Some commission \<Rightarrow>
          (let commissionValidity =
                 checkCommissionValidity (status commission) ''accept commission''
           in if commissionValidity \<noteq> ''valid''
              then (Inl (InvalidTransaction commissionValidity), s)
              else (let commission' =
                          commission\<lparr>status := (status commission)\<lparr>Accepted := True\<rparr>\<rparr>
                    in (Inr commission',
                        s\<lparr>commissions := (commissions s)(cID \<mapsto> commission')\<rparr>))))"

definition rejectCommission :: "state \<Rightarrow> principal \<Rightarrow> (Error + Commission) \<times> state" where
  "rejectCommission s cID =
     (case commissions s cID of
        None \<Rightarrow> (Inl (NotFound (''cannot reject commission: commission='' @ toText cID
                                  @ '' not found'')), s)
      | Some commission \<Rightarrow>
          (let commissionValidity =
                 checkCommissionValidity (status commission) ''reject commission''
           in if commissionValidity \<noteq> ''valid''
              then (Inl (InvalidTransaction commissionValidity), s)
              else (let commission' =
                          commission\<lparr>status := (status commission)\<lparr>Rejected := True\<rparr>\<rparr>
                    in (Inr commission',
                        s\<lparr>commissions := (commissions s)(cID \<mapsto> commission')\<rparr>))))"

definition submitArtwork ::
  "state \<Rightarrow> principal \<Rightarrow> string \<Rightarrow> (Error + Commission) \<times> state" where
  "submitArtwork s cID url =
     (case commissions s cID of
        None \<Rightarrow> (Inl (NotFound (''cannot submit artwork: commission='' @ toText cID
                                  @ '' not found'')), s)
      | Some commission \<Rightarrow>
          (let commissionValidity =
                 checkCommissionValidity (status commission) ''submit artwork''
           in if commissionValidity \<noteq> ''valid''
              then (Inl (InvalidTransaction commissionValidity), s)
              else (let commission' =
                          commission\<lparr>artURL := url,
                                     status := (status commission)\<lparr>ArtworkSubmitted := True\<rparr>\<rparr>
                    in (Inr commission',
                        s\<lparr>commissions := (commissions s)(cID \<mapsto> commission')\<rparr>))))"

definition cancelCommission :: "state \<Rightarrow> principal \<Rightarrow> (Error + Commission) \<times> state" where
  "cancelCommission s cID =
     (case commissions s cID of
        None \<Rightarrow> (Inl (NotFound (''cannot cancel commission: commission='' @ toText cID
                                  @ '' not found'')), s)
      | Some commission \<Rightarrow>
          (let commissionValidity =
                 checkCommissionValidity (status commission) ''cancel commission''
           in if commissionValidity \<noteq> ''valid''
              then (Inl (InvalidTransaction commissionValidity), s)
              else (let commission' =
                          commission\<lparr>status := (status commission)\<lparr>Cancelled := True\<rparr>\<rparr>
                    in (Inr commission',
                        s\<lparr>commissions := (commissions s)(cID \<mapsto> commission')\<rparr>))))"

section \<open>The method table and runs of the canister\<close>

text \<open>
  The six lifecycle methods, each with the string it passes to the guard, and the
  dispatch of a call to the method of that name. A run of the canister is a sequence
  of update calls from the empty maps; the identifier that \<^verbatim>\<open>generateId()\<close>
  draws in a create call is part of the call, and \<open>well_typed\<close> is what the interface
  types of \<^verbatim>\<open>createArtist\<close> let through.
\<close>

datatype operation = Accept | Reject | SubmitArtwork string | RequestRevision | Approve | Cancel

fun methodType :: "operation \<Rightarrow> string" where
  "methodType Accept = ''accept commission''"
| "methodType Reject = ''reject commission''"
| "methodType (SubmitArtwork url) = ''submit artwork''"
| "methodType RequestRevision = ''request revision''"
| "methodType Approve = ''approve commission''"
| "methodType Cancel = ''cancel commission''"

fun perform :: "state \<Rightarrow> operation \<Rightarrow> principal \<Rightarrow> (Error + Commission) \<times> state" where
  "perform s Accept k = acceptCommission s k"
| "perform s Reject k = rejectCommission s k"
| "perform s (SubmitArtwork url) k = submitArtwork s k url"
| "perform s RequestRevision k = requestRevision s k"
| "perform s Approve k = approveCommission s k"
| "perform s Cancel k = cancelCommission s k"

datatype call =
  CreateArtist principal string "64 word" int
  | CreateCustomer principal string
  | CreateCommission principal principal principal
  | Lifecycle operation principal

fun well_typed :: "call \<Rightarrow> bool" where
  "well_typed (CreateArtist newID name p n) = int8 n"
| "well_typed (CreateCustomer newID name) = True"
| "well_typed (CreateCommission newID aID cID) = True"
| "well_typed (Lifecycle op k) = True"

fun exec :: "state \<Rightarrow> call \<Rightarrow> state" where
  "exec s (CreateArtist newID name p n) = snd (createArtist s newID name p n)"
| "exec s (CreateCustomer newID name) = snd (createCustomer s newID name)"
| "exec s (CreateCommission newID aID cID) = snd (createCommission s newID aID cID)"
| "exec s (Lifecycle op k) = snd (perform s op k)"

inductive reachable :: "state \<Rightarrow> bool" where
  reachable_init: "reachable init"
| reachable_exec: "reachable s \<Longrightarrow> well_typed c \<Longrightarrow> reachable (exec s c)"

definition terminal :: "Status \<Rightarrow> bool" where
  "terminal st = (Cancelled st \<or> Approved st \<or> Rejected st)"

section \<open>The guard as the specification words it\<close>

text \<open>
  The specification describes the guard as an ordered list of denial rules of which the
  first that matches wins. \<open>guard\<close> is written from those words, to be compared with
  \<open>checkCommissionValidity\<close>.
\<close>

datatype verdict = Permitted | Denied string

definition isAcceptOrReject :: "string \<Rightarrow> bool" where
  "isAcceptOrReject m = (m = ''accept commission'' \<or> m = ''reject commission'')"

definition isApproveOrRequestRevision :: "string \<Rightarrow> bool" where
  "isApproveOrRequestRevision m = (m = ''approve commission'' \<or> m = ''request revision'')"

definition guard_rules :: "((Status \<Rightarrow> string \<Rightarrow> bool) \<times> string) list" where
  "guard_rules =
     [(\<lambda>st m. Cancelled st, ''commission has been cancelled''),
      (\<lambda>st m. Approved st, ''commission has ended''),
      (\<lambda>st m. Rejected st, ''commission has been rejected''),
      (\<lambda>st m. \<not> isAcceptOrReject m \<and> \<not> Accepted st, ''commission has yet to be accepted''),
      (\<lambda>st m. Accepted st \<and> isAcceptOrReject m, ''commission has been accepted''),
      (\<lambda>st m. isApproveOrRequestRevision m \<and> \<not> ArtworkSubmitted st, ''artwork not finished'')]"

fun first_match ::
  "((Status \<Rightarrow> string \<Rightarrow> bool) \<times> string) list \<Rightarrow> Status \<Rightarrow> string \<Rightarrow> verdict" where
  "first_match [] st m = Permitted"
| "first_match ((applies, reason) # rules) st m =
     (if applies st m then Denied reason else first_match rules st m)"

definition guard :: "Status \<Rightarrow> string \<Rightarrow> verdict" where
  "guard st m = first_match guard_rules st m"

fun surfaced :: "string \<Rightarrow> verdict \<Rightarrow> string" where
  "surfaced m Permitted = ''valid''"
| "surfaced m (Denied reason) = ''cannot '' @ m @ '': '' @ reason"

section \<open>The scenario of the specification\<close>

text \<open>
  An artist with one revision, a customer, and a commission taken through accept,
  submit, request revision, submit again and approve.
\<close>

definition ann :: principal where "ann = Principal ''ann''"
definition cy :: principal where "cy = Principal ''cy''"
definition k1 :: principal where "k1 = Principal ''k1''"

definition s_registered :: state where
  "s_registered = snd (createCustomer (snd (createArtist init ann ''Ann'' 100 1)) cy ''Cy'')"

definition s_pending :: state where
  "s_pending = snd (createCommission s_registered k1 ann cy)"

definition s_accepted :: state where
  "s_accepted = snd (acceptCommission s_pending k1)"

definition s_submitted :: state where
  "s_submitted = snd (submitArtwork s_accepted k1 ''u1'')"

definition s_revised :: state where
  "s_revised = snd (requestRevision s_submitted k1)"

definition s_resubmitted :: state where
  "s_resubmitted = snd (submitArtwork s_revised k1 ''u2'')"

definition s_approved :: state where
  "s_approved = snd (approveCommission s_resubmitted k1)"

definition c_pending :: Commission where
  "c_pending =
     \<lparr>commissionID = k1, customerID = cy, artistID = ann, price = 100,
      remaining_revision = 1, artURL = '''',
      status = \<lparr>Pending = True, Accepted = False, Rejected = False,
                ArtworkSubmitted = False, Approved = False, Cancelled = False\<rparr>\<rparr>"

definition c_accepted :: Commission where
  "c_accepted = c_pending\<lparr>status := (status c_pending)\<lparr>Accepted := True\<rparr>\<rparr>"

definition c_submitted :: Commission where
  "c_submitted =
     c_accepted\<lparr>artURL := ''u1'', status := (status c_accepted)\<lparr>ArtworkSubmitted := True\<rparr>\<rparr>"

definition c_revised :: Commission where
  "c_revised =
     c_submitted\<lparr>remaining_revision := 0,
                  status := (status c_submitted)\<lparr>ArtworkSubmitted := False\<rparr>\<rparr>"

definition c_resubmitted :: Commission where
  "c_resubmitted =
     c_revised\<lparr>artURL := ''u2'', status := (status c_revised)\<lparr>ArtworkSubmitted := True\<rparr>\<rparr>"

definition c_approved :: Commission where
  "c_approved = c_resubmitted\<lparr>status := (status c_resubmitted)\<lparr>Approved := True\<rparr>\<rparr>"

text \<open>The same registration with a revision budget of \<open>-1\<close>, which \<^verbatim>\<open>int8\<close> admits.\<close>

definition n_registered :: state where
  "n_registered = snd (createCustomer (snd (createArtist init ann ''Ann'' 100 (- 1))) cy ''Cy'')"

definition n_pending :: state where
  "n_pending = snd (createCommission n_registered k1 ann cy)"

definition n_submitted :: state where
  "n_submitted = snd (submitArtwork (snd (acceptCommission n_pending k1)) k1 ''u1'')"

section \<open>The variant with input validation\<close>

text \<open>
  \<^verbatim>\<open>src/smartcontract/index.ts\<close> holds a second copy of the canister whose
  \<^verbatim>\<open>createArtist\<close>, \<^verbatim>\<open>createCustomer\<close> and \<^verbatim>\<open>submitArtwork\<close> begin with a
  check of their arguments (\<^verbatim>\<open>!artistName || !price || !number_of_revision\<close>,
  \<^verbatim>\<open>!customerName\<close>, \<^verbatim>\<open>!artURL\<close>) and return \<^verbatim>\<open>Err({ InvalidInput: ... })\<close>
  when it fails. A string is falsy when empty, a \<^verbatim>\<open>nat64\<close> and a number when zero.
  Its guard has a seventh branch that reads \<^verbatim>\<open>status.remaining_revision\<close>, a field a
  Status does not have, and so never fires: the guard is \<open>checkCommissionValidity\<close>.
  The three functions are modelled with the suffix \<open>_sc\<close>.
\<close>

definition createArtist_sc ::
  "state \<Rightarrow> principal \<Rightarrow> string \<Rightarrow> 64 word \<Rightarrow> int \<Rightarrow> (Error + Artist) \<times> state" where
  "createArtist_sc s newID name p n =
     (if name = '''' \<or> p = 0 \<or> n = 0
      then (Inl (InvalidInput ''Missing required fields in the artist object''), s)
      else (let artist = \<lparr>Artist.artistID = newID, artistName = name, Artist.price = p,
                           number_of_revision = n\<rparr>
            in (Inr artist, s\<lparr>artists := (artists s)(Artist.artistID artist \<mapsto> artist)\<rparr>)))"

definition createCustomer_sc ::
  "state \<Rightarrow> principal \<Rightarrow> string \<Rightarrow> (Error + Customer) \<times> state" where
  "createCustomer_sc s newID name =
     (if name = ''''
      then (Inl (InvalidInput ''Missing required fields in the customer object''), s)
      else (let customer = \<lparr>Customer.customerID = newID, customerName = name\<rparr>
            in (Inr customer,
                s\<lparr>customers := (customers s)(Customer.customerID customer \<mapsto> customer)\<rparr>)))"

definition submitArtwork_sc ::
  "state \<Rightarrow> principal \<Rightarrow> string \<Rightarrow> (Error + Commission) \<times> state" where
  "submitArtwork_sc s cID url =
     (case commissions s cID of
        None \<Rightarrow> (Inl (NotFound (''cannot submit artwork: commission='' @ toText cID
                                  @ '' not found'')), s)
      | Some commission \<Rightarrow>
          (let commissionValidity =
                 checkCommissionValidity (status commission) ''submit artwork''
           in if commissionValidity \<noteq> ''valid''
              then (Inl (InvalidTransaction commissionValidity), s)
              else if url = ''''
              then (Inl (InvalidInput ''Missing required fields in the artwork object''), s)
              else (let commission' =
                          commission\<lparr>artURL := url,
                                     status := (status commission)\<lparr>ArtworkSubmitted := True\<rparr>\<rparr>
                    in (Inr commission',
                        s\<lparr>commissions := (commissions s)(cID \<mapsto> commission')\<rparr>))))"

section \<open>Facts about the guard\<close>

lemma checkCommissionValidity_chain:
  "checkCommissionValidity st m =
     (if Cancelled st then ''cannot '' @ m @ '': commission has been cancelled''
      else if Approved st then ''cannot '' @ m @ '': commission has ended''
      else if Rejected st then ''cannot '' @ m @ '': commission has been rejected''
      else if \<not> Accepted st \<and> m \<noteq> ''accept commission'' \<and> m \<noteq> ''reject commission''
        then ''cannot '' @ m @ '': commission has yet to be accepted''
      else if Accepted st \<and> (m = ''accept commission'' \<or> m = ''reject commission'')
        then ''cannot '' @ m @ '': commission has been accepted''
      else if \<not> ArtworkSubmitted st \<and> (m = ''approve commission'' \<or> m = ''request revision'')
        then ''cannot '' @ m @ '': artwork not finished''
      else ''valid'')"
  by (simp add: checkCommissionValidity_def)

lemma checkCommissionValidity_surfaced: "checkCommissionValidity st m = surfaced m (guard st m)"
  by (simp add: checkCommissionValidity_def guard_def guard_rules_def isAcceptOrReject_def
      isApproveOrRequestRevision_def)

lemma surfaced_valid: "(surfaced m v = ''valid'') = (v = Permitted)"
  by (cases v) simp_all

lemma terminal_denied: "terminal st \<Longrightarrow> checkCommissionValidity st m \<noteq> ''valid''"
  by (auto simp: checkCommissionValidity_chain terminal_def)

section \<open>Each lifecycle method, given the commission it finds\<close>

lemma perform_denied:
  assumes "commissions s k = Some c"
    and "checkCommissionValidity (status c) (methodType op) \<noteq> ''valid''"
  shows "perform s op k =
           (Inl (InvalidTransaction (checkCommissionValidity (status c) (methodType op))), s)"
  using assms
  by (cases op)
    (simp_all add: acceptCommission_def rejectCommission_def submitArtwork_def
      requestRevision_def approveCommission_def cancelCommission_def Let_def)

lemma perform_other:
  assumes "k' \<noteq> k"
  shows "commissions (snd (perform s op k')) k = commissions s k"
  using assms
  by (cases op)
    (auto simp: acceptCommission_def rejectCommission_def submitArtwork_def
      requestRevision_def approveCommission_def cancelCommission_def Let_def
      split: option.splits)

section \<open>The scenario, state by state\<close>

lemma s_pending_k1: "commissions s_pending k1 = Some c_pending"
  by (simp add: s_pending_def s_registered_def createCommission_def createCustomer_def
      createArtist_def init_def ann_def cy_def k1_def c_pending_def Let_def)

lemma created_c_pending: "createCommission s_registered k1 ann cy =
    (Inr c_pending, s_registered\<lparr>commissions := (commissions s_registered)(k1 \<mapsto> c_pending)\<rparr>)"
  by (simp add: s_registered_def createCommission_def createCustomer_def
      createArtist_def init_def ann_def cy_def k1_def c_pending_def Let_def)

lemma s_accepted_k1: "commissions s_accepted k1 = Some c_accepted"
  by (simp add: s_accepted_def acceptCommission_def s_pending_k1 checkCommissionValidity_chain
      c_pending_def c_accepted_def Let_def)

lemma s_submitted_k1: "commissions s_submitted k1 = Some c_submitted"
  by (simp add: s_submitted_def submitArtwork_def s_accepted_k1 checkCommissionValidity_chain
      c_pending_def c_accepted_def c_submitted_def Let_def)

lemma s_revised_k1: "commissions s_revised k1 = Some c_revised"
  by (simp add: s_revised_def requestRevision_def s_submitted_k1 checkCommissionValidity_chain
      c_pending_def c_accepted_def c_submitted_def c_revised_def Let_def)

lemma s_resubmitted_k1: "commissions s_resubmitted k1 = Some c_resubmitted"
  by (simp add: s_resubmitted_def submitArtwork_def s_revised_k1 checkCommissionValidity_chain
      c_pending_def c_accepted_def c_submitted_def c_revised_def c_resubmitted_def Let_def)

lemma s_approved_k1: "commissions s_approved k1 = Some c_approved"
  by (simp add: s_approved_def approveCommission_def s_resubmitted_k1
      checkCommissionValidity_chain c_pending_def c_accepted_def c_submitted_def c_revised_def
      c_resubmitted_def c_approved_def Let_def)

lemmas scenario_commissions =
  c_pending_def c_accepted_def c_submitted_def c_revised_def c_resubmitted_def c_approved_def

lemma reachable_s_registered: "reachable s_registered"
proof -
  have "reachable (exec init (CreateArtist ann ''Ann'' 100 1))"
    by (rule reachable_exec [OF reachable_init]) (simp add: int8_def)
  then have "reachable (exec (exec init (CreateArtist ann ''Ann'' 100 1)) (CreateCustomer cy ''Cy''))"
    by (rule reachable_exec) simp
  then show ?thesis by (simp add: s_registered_def)
qed

lemma reachable_s_pending: "reachable s_pending"
proof -
  have "reachable (exec s_registered (CreateCommission k1 ann cy))"
    by (rule reachable_exec [OF reachable_s_registered]) simp
  then show ?thesis by (simp add: s_pending_def)
qed

lemma reachable_lifecycle: "reachable s \<Longrightarrow> reachable (snd (perform s op k))"
  using reachable_exec [of s "Lifecycle op k"] by simp

lemma reachable_s_accepted: "reachable s_accepted"
  using reachable_lifecycle [OF reachable_s_pending, of Accept k1] by (simp add: s_accepted_def)

lemma reachable_s_submitted: "reachable s_submitted"
  using reachable_lifecycle [OF reachable_s_accepted, of "SubmitArtwork ''u1''" k1]
  by (simp add: s_submitted_def)

lemma reachable_s_revised: "reachable s_revised"
  using reachable_lifecycle [OF reachable_s_submitted, of RequestRevision k1]
  by (simp add: s_revised_def)

lemma reachable_s_resubmitted: "reachable s_resubmitted"
  using reachable_lifecycle [OF reachable_s_revised, of "SubmitArtwork ''u2''" k1]
  by (simp add: s_resubmitted_def)

lemma reachable_s_approved: "reachable s_approved"
  using reachable_lifecycle [OF reachable_s_resubmitted, of Approve k1]
  by (simp add: s_approved_def)

section \<open>Cancelling\<close>

text \<open>
  C1, as stated, fails: a commission that has just been created is not terminal, and
  \<open>cancelCommission\<close> on it returns \<open>InvalidTransaction\<close>, because the fourth branch of
  the guard exempts only the accept and reject methods.
\<close>

theorem cancel_pending_counterexample:
  "createCommission s_registered k1 ann cy =
     (Inr c_pending, s_pending)
   \<and> commissions s_pending k1 = Some c_pending
   \<and> \<not> Cancelled (status c_pending) \<and> \<not> Approved (status c_pending)
   \<and> \<not> Rejected (status c_pending) \<and> \<not> Accepted (status c_pending)
   \<and> cancelCommission s_pending k1 =
       (Inl (InvalidTransaction
          ''cannot cancel commission: commission has yet to be accepted''), s_pending)"
  by (simp add: cancelCommission_def s_pending_k1 checkCommissionValidity_chain Let_def
      created_c_pending s_pending_def)
    (simp add: c_pending_def)

text \<open>
  C1, amended: on a commission that is not terminal, \<open>cancelCommission\<close> returns the
  commission with \<open>Cancelled\<close> set, and stores it, exactly when \<open>Accepted\<close> is true (so
  after Accept and after Accept and SubmitArtwork); when \<open>Accepted\<close> is false (the
  commission is still pending) it returns \<open>InvalidTransaction\<close> with the message
  "cannot cancel commission: commission has yet to be accepted" and changes nothing;
  from a terminal state it returns \<open>InvalidTransaction\<close> and changes nothing.
\<close>

theorem cancelCommission_by_state:
  assumes "commissions s k = Some c"
  shows "(\<not> terminal (status c) \<and> Accepted (status c) \<longrightarrow>
            cancelCommission s k =
              (Inr (c\<lparr>status := (status c)\<lparr>Cancelled := True\<rparr>\<rparr>),
               s\<lparr>commissions := (commissions s)(k \<mapsto> c\<lparr>status := (status c)\<lparr>Cancelled := True\<rparr>\<rparr>)\<rparr>))
       \<and> (\<not> terminal (status c) \<and> \<not> Accepted (status c) \<longrightarrow>
            cancelCommission s k =
              (Inl (InvalidTransaction
                 ''cannot cancel commission: commission has yet to be accepted''), s))
       \<and> (terminal (status c) \<longrightarrow>
            (\<exists>msg. cancelCommission s k = (Inl (InvalidTransaction msg), s)))"
  using assms
  by (auto simp: cancelCommission_def checkCommissionValidity_chain terminal_def Let_def)

theorem cancelCommission_by_state_witness:
  "cancelCommission s_accepted k1 =
     (Inr (c_accepted\<lparr>status := (status c_accepted)\<lparr>Cancelled := True\<rparr>\<rparr>),
      s_accepted\<lparr>commissions :=
        (commissions s_accepted)(k1 \<mapsto> c_accepted\<lparr>status := (status c_accepted)\<lparr>Cancelled := True\<rparr>\<rparr>)\<rparr>)
   \<and> cancelCommission s_submitted k1 =
     (Inr (c_submitted\<lparr>status := (status c_submitted)\<lparr>Cancelled := True\<rparr>\<rparr>),
      s_submitted\<lparr>commissions :=
        (commissions s_submitted)(k1 \<mapsto> c_submitted\<lparr>status := (status c_submitted)\<lparr>Cancelled := True\<rparr>\<rparr>)\<rparr>)
   \<and> cancelCommission s_pending k1 =
     (Inl (InvalidTransaction
        ''cannot cancel commission: commission has yet to be accepted''), s_pending)
   \<and> (\<exists>msg. cancelCommission s_approved k1 = (Inl (InvalidTransaction msg), s_approved))"
proof -
  have a: "\<not> terminal (status c_accepted) \<and> Accepted (status c_accepted)"
    by (simp add: terminal_def scenario_commissions)
  have b: "\<not> terminal (status c_submitted) \<and> Accepted (status c_submitted)"
    by (simp add: terminal_def scenario_commissions)
  have c: "\<not> terminal (status c_pending) \<and> \<not> Accepted (status c_pending)"
    by (simp add: terminal_def scenario_commissions)
  have d: "terminal (status c_approved)"
    by (simp add: terminal_def scenario_commissions)
  show ?thesis
    using cancelCommission_by_state [OF s_accepted_k1] cancelCommission_by_state [OF s_submitted_k1]
      cancelCommission_by_state [OF s_pending_k1] cancelCommission_by_state [OF s_approved_k1]
      a b c d
    by blast
qed

section \<open>The guard is the precedence chain\<close>

text \<open>
  C2: for every status and every method name, \<open>checkCommissionValidity\<close> returns what
  the ordered rule list of the specification gives with the first matching rule winning:
  \<open>"valid"\<close> when \<open>guard\<close> permits and \<open>"cannot <operation>: <reason>"\<close> when it denies
  with that reason. Every lifecycle method that finds its commission returns
  \<open>InvalidTransaction\<close> with that message when the guard denies, leaving the maps as
  they were, and returns no \<open>InvalidTransaction\<close> when the guard permits.
\<close>

theorem guard_precedence_chain:
  "checkCommissionValidity st m = surfaced m (guard st m)
   \<and> (commissions s k = Some c \<longrightarrow> guard (status c) (methodType op) = Denied reason \<longrightarrow>
        perform s op k =
          (Inl (InvalidTransaction (''cannot '' @ methodType op @ '': '' @ reason)), s))
   \<and> (commissions s k = Some c \<longrightarrow> guard (status c) (methodType op) = Permitted \<longrightarrow>
        (\<forall>msg. fst (perform s op k) \<noteq> Inl (InvalidTransaction msg)))"
proof (intro conjI impI)
  show "checkCommissionValidity st m = surfaced m (guard st m)"
    by (rule checkCommissionValidity_surfaced)
next
  assume c: "commissions s k = Some c" and d: "guard (status c) (methodType op) = Denied reason"
  have "checkCommissionValidity (status c) (methodType op) =
          ''cannot '' @ methodType op @ '': '' @ reason"
    by (simp add: checkCommissionValidity_surfaced d)
  then show "perform s op k =
      (Inl (InvalidTransaction (''cannot '' @ methodType op @ '': '' @ reason)), s)"
    using perform_denied [OF c, of op] by simp
next
  assume c: "commissions s k = Some c" and p: "guard (status c) (methodType op) = Permitted"
  have v: "checkCommissionValidity (status c) (methodType op) = ''valid''"
    by (simp add: checkCommissionValidity_surfaced p)
  show "\<forall>msg. fst (perform s op k) \<noteq> Inl (InvalidTransaction msg)"
    using c v
    by (cases op)
      (simp_all add: acceptCommission_def rejectCommission_def submitArtwork_def
        requestRevision_def approveCommission_def cancelCommission_def Let_def)
qed

theorem guard_precedence_chain_witness:
  "checkCommissionValidity (status c_accepted) ''accept commission'' =
     ''cannot accept commission: commission has been accepted''
   \<and> perform s_accepted Approve k1 =
       (Inl (InvalidTransaction ''cannot approve commission: artwork not finished''), s_accepted)
   \<and> (\<forall>msg. fst (perform s_accepted (SubmitArtwork ''u1'') k1) \<noteq> Inl (InvalidTransaction msg))"
proof -
  have g1: "guard (status c_accepted) ''accept commission'' = Denied ''commission has been accepted''"
    by (simp add: guard_def guard_rules_def isAcceptOrReject_def scenario_commissions)
  have g2: "guard (status c_accepted) (methodType Approve) = Denied ''artwork not finished''"
    by (simp add: guard_def guard_rules_def isAcceptOrReject_def isApproveOrRequestRevision_def
        scenario_commissions)
  have g3: "guard (status c_accepted) (methodType (SubmitArtwork ''u1'')) = Permitted"
    by (simp add: guard_def guard_rules_def isAcceptOrReject_def isApproveOrRequestRevision_def
        scenario_commissions)
  show ?thesis
    using guard_precedence_chain [of "status c_accepted" "''accept commission''" s_accepted k1
        c_accepted Approve "''artwork not finished''"]
      guard_precedence_chain [of "status c_accepted" "''accept commission''" s_accepted k1
        c_accepted "SubmitArtwork ''u1''" "''x''"]
      g1 g2 g3 s_accepted_k1
    by simp
qed

section \<open>Terminal commissions\<close>

text \<open>
  C3: on a commission with \<open>Approved\<close> true and \<open>Cancelled\<close> and \<open>Rejected\<close> false, each
  of the six lifecycle methods returns \<open>InvalidTransaction\<close> with the reason
  "commission has ended" and leaves the maps unchanged. In general, on a commission in
  a terminal state every lifecycle method returns \<open>InvalidTransaction\<close> without
  changing the maps, and a lifecycle method called on any identifier leaves a terminal
  commission as it is stored.
\<close>

theorem terminal_admits_no_transition:
  assumes "commissions s k = Some c"
  shows "(Approved (status c) \<and> \<not> Cancelled (status c) \<and> \<not> Rejected (status c) \<longrightarrow>
            perform s op k =
              (Inl (InvalidTransaction (''cannot '' @ methodType op @ '': commission has ended'')), s))
       \<and> (terminal (status c) \<longrightarrow>
            (\<exists>msg. perform s op k = (Inl (InvalidTransaction msg), s))
            \<and> commissions (snd (perform s op k')) k = Some c)"
proof (intro conjI impI)
  assume a: "Approved (status c) \<and> \<not> Cancelled (status c) \<and> \<not> Rejected (status c)"
  then have "checkCommissionValidity (status c) (methodType op) =
               ''cannot '' @ methodType op @ '': commission has ended''"
    by (simp add: checkCommissionValidity_chain)
  then show "perform s op k =
      (Inl (InvalidTransaction (''cannot '' @ methodType op @ '': commission has ended'')), s)"
    using perform_denied [OF assms, of op] by simp
next
  assume t: "terminal (status c)"
  show "\<exists>msg. perform s op k = (Inl (InvalidTransaction msg), s)"
    using perform_denied [OF assms terminal_denied [OF t]] by blast
next
  assume t: "terminal (status c)"
  show "commissions (snd (perform s op k')) k = Some c"
  proof (cases "k' = k")
    case True
    then show ?thesis
      using perform_denied [OF assms terminal_denied [OF t], of op] assms by simp
  next
    case False
    then show ?thesis by (simp add: perform_other assms)
  qed
qed

theorem terminal_admits_no_transition_witness:
  "perform s_approved Accept k1 =
     (Inl (InvalidTransaction ''cannot accept commission: commission has ended''), s_approved)
   \<and> perform s_approved Reject k1 =
     (Inl (InvalidTransaction ''cannot reject commission: commission has ended''), s_approved)
   \<and> perform s_approved (SubmitArtwork ''u3'') k1 =
     (Inl (InvalidTransaction ''cannot submit artwork: commission has ended''), s_approved)
   \<and> perform s_approved RequestRevision k1 =
     (Inl (InvalidTransaction ''cannot request revision: commission has ended''), s_approved)
   \<and> perform s_approved Approve k1 =
     (Inl (InvalidTransaction ''cannot approve commission: commission has ended''), s_approved)
   \<and> perform s_approved Cancel k1 =
     (Inl (InvalidTransaction ''cannot cancel commission: commission has ended''), s_approved)
   \<and> commissions (snd (perform s_approved Cancel k1)) k1 = Some c_approved"
proof -
  have a: "Approved (status c_approved) \<and> \<not> Cancelled (status c_approved)
           \<and> \<not> Rejected (status c_approved)"
    by (simp add: scenario_commissions)
  have t: "terminal (status c_approved)"
    by (simp add: terminal_def scenario_commissions)
  show ?thesis
    using terminal_admits_no_transition [OF s_approved_k1, of Accept k1]
      terminal_admits_no_transition [OF s_approved_k1, of Reject k1]
      terminal_admits_no_transition [OF s_approved_k1, of "SubmitArtwork ''u3''" k1]
      terminal_admits_no_transition [OF s_approved_k1, of RequestRevision k1]
      terminal_admits_no_transition [OF s_approved_k1, of Approve k1]
      terminal_admits_no_transition [OF s_approved_k1, of Cancel k1]
      a t
    by (simp add: s_approved_k1)
qed

section \<open>Requesting a revision\<close>

text \<open>
  C7: on a commission with \<open>Accepted\<close> and \<open>ArtworkSubmitted\<close> true, no terminal flag
  set and \<open>remaining_revision > 0\<close>, \<open>requestRevision\<close> returns the commission with
  \<open>remaining_revision\<close> one less and \<open>ArtworkSubmitted\<close> false, every other field and
  flag as before (so \<open>Accepted\<close> stays true and no terminal flag is set), and stores it.
  In the scenario of the specification, with a budget of one, the result has
  \<open>remaining_revision = 0\<close>: that is the witness.
\<close>

theorem requestRevision_decrements:
  assumes "commissions s k = Some c"
    and "Accepted (status c)" and "ArtworkSubmitted (status c)"
    and "\<not> Cancelled (status c)" and "\<not> Approved (status c)" and "\<not> Rejected (status c)"
    and "0 < remaining_revision c"
  shows "\<exists>c'. requestRevision s k = (Inr c', s\<lparr>commissions := (commissions s)(k \<mapsto> c')\<rparr>)
           \<and> c' = c\<lparr>remaining_revision := remaining_revision c - 1,
                     status := (status c)\<lparr>ArtworkSubmitted := False\<rparr>\<rparr>
           \<and> remaining_revision c' = remaining_revision c - 1
           \<and> \<not> ArtworkSubmitted (status c') \<and> Accepted (status c')
           \<and> \<not> Approved (status c') \<and> \<not> Rejected (status c') \<and> \<not> Cancelled (status c')"
  using assms
  by (simp add: requestRevision_def checkCommissionValidity_chain Let_def)

theorem requestRevision_decrements_witness:
  "fst (createArtist init ann ''Ann'' 100 1) =
     \<lparr>Artist.artistID = ann, artistName = ''Ann'', Artist.price = 100, number_of_revision = 1\<rparr>
   \<and> commissions s_submitted k1 = Some c_submitted
   \<and> remaining_revision c_submitted = 1
   \<and> (\<exists>c'. requestRevision s_submitted k1 =
              (Inr c', s_submitted\<lparr>commissions := (commissions s_submitted)(k1 \<mapsto> c')\<rparr>)
           \<and> remaining_revision c' = 0
           \<and> \<not> ArtworkSubmitted (status c') \<and> Accepted (status c')
           \<and> \<not> Approved (status c') \<and> \<not> Rejected (status c') \<and> \<not> Cancelled (status c'))"
proof -
  have h: "Accepted (status c_submitted)" "ArtworkSubmitted (status c_submitted)"
    "\<not> Cancelled (status c_submitted)" "\<not> Approved (status c_submitted)"
    "\<not> Rejected (status c_submitted)" "0 < remaining_revision c_submitted"
    by (simp_all add: scenario_commissions)
  have r: "remaining_revision c_submitted = 1"
    by (simp add: scenario_commissions)
  have a: "fst (createArtist init ann ''Ann'' 100 1) =
     \<lparr>Artist.artistID = ann, artistName = ''Ann'', Artist.price = 100, number_of_revision = 1\<rparr>"
    by (simp add: createArtist_def Let_def)
  show ?thesis
    using requestRevision_decrements [OF s_submitted_k1 h] r a s_submitted_k1
    by auto
qed

text \<open>
  C8: on a commission that passes the guard (\<open>Accepted\<close> and \<open>ArtworkSubmitted\<close> true,
  no terminal flag set) with \<open>remaining_revision = 0\<close>, \<open>requestRevision\<close> returns the
  error \<open>NoRemainingRevision\<close> with the message "no more revision can be made", which is
  not an \<open>InvalidTransaction\<close>, and the maps are unchanged, so the stored commission
  still has \<open>remaining_revision = 0\<close> and \<open>ArtworkSubmitted\<close> true.
\<close>

theorem requestRevision_exhausted:
  assumes "commissions s k = Some c"
    and "Accepted (status c)" and "ArtworkSubmitted (status c)"
    and "\<not> Cancelled (status c)" and "\<not> Approved (status c)" and "\<not> Rejected (status c)"
    and "remaining_revision c = 0"
  shows "requestRevision s k = (Inl (NoRemainingRevision ''no more revision can be made''), s)
         \<and> (\<forall>msg. fst (requestRevision s k) \<noteq> Inl (InvalidTransaction msg))
         \<and> commissions (snd (requestRevision s k)) k = Some c
         \<and> remaining_revision c = 0 \<and> ArtworkSubmitted (status c)"
  using assms
  by (simp add: requestRevision_def checkCommissionValidity_chain Let_def)

theorem requestRevision_exhausted_witness:
  "requestRevision s_resubmitted k1 =
     (Inl (NoRemainingRevision ''no more revision can be made''), s_resubmitted)
   \<and> commissions (snd (requestRevision s_resubmitted k1)) k1 = Some c_resubmitted
   \<and> remaining_revision c_resubmitted = 0 \<and> ArtworkSubmitted (status c_resubmitted)"
proof -
  have h: "Accepted (status c_resubmitted)" "ArtworkSubmitted (status c_resubmitted)"
    "\<not> Cancelled (status c_resubmitted)" "\<not> Approved (status c_resubmitted)"
    "\<not> Rejected (status c_resubmitted)" "remaining_revision c_resubmitted = 0"
    by (simp_all add: scenario_commissions)
  show ?thesis
    using requestRevision_exhausted [OF s_resubmitted_k1 h] by blast
qed

section \<open>Creating a commission\<close>

text \<open>
  C9: when the artist and the customer are both in their maps, \<open>createCommission\<close>
  returns a commission, stored under the new identifier, whose status has \<open>Pending\<close>
  true and every other flag false, whose \<open>remaining_revision\<close> is the artist's
  \<open>number_of_revision\<close>, whose \<open>artURL\<close> is empty and whose \<open>price\<close> is the price the
  artist has at that moment; a later \<open>createArtist\<close> does not touch the commissions
  map, so the price is a snapshot. When the artist or the customer is absent it
  returns \<open>NotFound\<close> and the maps, the commissions map among them, are unchanged.
\<close>

theorem createCommission_result:
  "(artists s aID = Some artist \<and> customers s cID = Some customer \<longrightarrow>
      (\<exists>c. createCommission s newID aID cID =
              (Inr c, s\<lparr>commissions := (commissions s)(newID \<mapsto> c)\<rparr>)
          \<and> status c = \<lparr>Pending = True, Accepted = False, Rejected = False,
                         ArtworkSubmitted = False, Approved = False, Cancelled = False\<rparr>
          \<and> remaining_revision c = number_of_revision artist
          \<and> artURL c = ''''
          \<and> Commission.price c = Artist.price artist
          \<and> commissionID c = newID \<and> Commission.customerID c = cID
          \<and> Commission.artistID c = Artist.artistID artist))
   \<and> (artists s aID = None \<or> customers s cID = None \<longrightarrow>
        (\<exists>msg. createCommission s newID aID cID = (Inl (NotFound msg), s)))
   \<and> commissions (snd (createArtist s' newID' name' p' n')) = commissions s'"
  by (auto simp: createCommission_def createArtist_def Let_def split: option.splits)

theorem createCommission_result_witness:
  "(\<exists>c. createCommission s_registered k1 ann cy =
            (Inr c, s_registered\<lparr>commissions := (commissions s_registered)(k1 \<mapsto> c)\<rparr>)
        \<and> status c = \<lparr>Pending = True, Accepted = False, Rejected = False,
                       ArtworkSubmitted = False, Approved = False, Cancelled = False\<rparr>
        \<and> remaining_revision c = 1 \<and> artURL c = '''' \<and> Commission.price c = 100)
   \<and> (\<exists>msg. createCommission init k1 ann cy = (Inl (NotFound msg), init))
   \<and> commissions (snd (createArtist s_pending ann ''Ann'' 250 3)) k1 = Some c_pending"
proof -
  let ?artist = "\<lparr>Artist.artistID = ann, artistName = ''Ann'', Artist.price = 100,
                   number_of_revision = 1\<rparr>"
  let ?customer = "\<lparr>Customer.customerID = cy, customerName = ''Cy''\<rparr>"
  have a: "artists s_registered ann = Some ?artist"
    by (simp add: s_registered_def createCustomer_def createArtist_def Let_def)
  have c: "customers s_registered cy = Some ?customer"
    by (simp add: s_registered_def createCustomer_def createArtist_def Let_def)
  have n: "artists init ann = None"
    by (simp add: init_def)
  show ?thesis
    using createCommission_result [of s_registered ann ?artist cy ?customer k1 s_pending ann
        "''Ann''" 250 3]
      createCommission_result [of init ann ?artist cy ?customer k1 s_pending ann "''Ann''" 250 3]
      a c n s_pending_k1
    by auto
qed

section \<open>The Pending flag\<close>

lemma perform_keeps_Pending:
  assumes "commissions s k = Some c" and "commissions (snd (perform s op k')) k = Some c'"
  shows "Pending (status c') = Pending (status c)"
  using assms
  by (cases op)
    (auto simp: acceptCommission_def rejectCommission_def submitArtwork_def
      requestRevision_def approveCommission_def cancelCommission_def Let_def
      split: option.splits if_splits)

lemma perform_dom:
  "commissions (snd (perform s op k')) k = Some c' \<Longrightarrow> \<exists>c. commissions s k = Some c"
  by (cases op)
    (auto simp: acceptCommission_def rejectCommission_def submitArtwork_def
      requestRevision_def approveCommission_def cancelCommission_def Let_def
      split: option.splits if_splits)

lemma exec_keeps_Pending:
  assumes "\<And>k c. commissions s k = Some c \<Longrightarrow> Pending (status c)"
    and "commissions (exec s call) k = Some c"
  shows "Pending (status c)"
proof (cases call)
  case (CreateArtist newID name p n)
  then show ?thesis using assms by (simp add: createArtist_def Let_def)
next
  case (CreateCustomer newID name)
  then show ?thesis using assms by (simp add: createCustomer_def Let_def)
next
  case (CreateCommission newID aID cID)
  then show ?thesis using assms
    by (auto simp: createCommission_def Let_def split: option.splits if_splits)
next
  case (Lifecycle op k')
  with assms(2) have after: "commissions (snd (perform s op k')) k = Some c" by simp
  then obtain c0 where before: "commissions s k = Some c0"
    using perform_dom by blast
  then show ?thesis
    using perform_keeps_Pending [OF before after] assms(1) by simp
qed

text \<open>
  C10: \<open>createCommission\<close> sets \<open>Pending\<close> to true and no method ever writes the flag
  again, so every commission stored in a reachable state has \<open>Pending\<close> true, whatever
  its other flags: in the witness the commission is accepted and approved.
\<close>

theorem Pending_never_cleared:
  assumes "reachable s" and "commissions s k = Some c"
  shows "Pending (status c)"
  using assms
proof (induction arbitrary: k c rule: reachable.induct)
  case reachable_init
  then show ?case by (simp add: init_def)
next
  case (reachable_exec s call)
  then show ?case using exec_keeps_Pending [of s call k c] by blast
qed

theorem Pending_never_cleared_witness:
  "reachable s_approved \<and> commissions s_approved k1 = Some c_approved
   \<and> Accepted (status c_approved) \<and> Approved (status c_approved)
   \<and> Pending (status c_approved)"
  using Pending_never_cleared [OF reachable_s_approved s_approved_k1]
    reachable_s_approved s_approved_k1
  by (simp add: scenario_commissions)

section \<open>The revision budget\<close>

text \<open>
  A lifecycle method never raises \<open>remaining_revision\<close>: the only write is the
  decrement in \<open>requestRevision\<close>, on the commission the call names.
\<close>

lemma perform_remaining_revision:
  assumes "commissions s k = Some c" and "commissions (snd (perform s op k')) k = Some c'"
  shows "remaining_revision c' = remaining_revision c
         \<or> (op = RequestRevision \<and> k' = k \<and> remaining_revision c \<noteq> 0
            \<and> remaining_revision c' = remaining_revision c - 1)"
  using assms
  by (cases op)
    (auto simp: acceptCommission_def rejectCommission_def submitArtwork_def
      requestRevision_def approveCommission_def cancelCommission_def Let_def
      split: option.splits if_splits)

text \<open>
  When every artist is created with a budget that is not negative, no stored
  commission has a negative \<open>remaining_revision\<close>: \<open>nonneg\<close> is kept by every call
  but a \<open>CreateArtist\<close> with a negative budget.
\<close>

lemma exec_keeps_nonneg:
  assumes "\<And>a artist. artists s a = Some artist \<Longrightarrow> 0 \<le> number_of_revision artist"
    and "\<And>k c. commissions s k = Some c \<Longrightarrow> 0 \<le> remaining_revision c"
    and "\<And>newID name p n. call = CreateArtist newID name p n \<Longrightarrow> 0 \<le> n"
  shows "(\<forall>a artist. artists (exec s call) a = Some artist \<longrightarrow> 0 \<le> number_of_revision artist)
       \<and> (\<forall>k c. commissions (exec s call) k = Some c \<longrightarrow> 0 \<le> remaining_revision c)"
proof (cases call)
  case (CreateArtist newID name p n)
  then show ?thesis using assms by (auto simp: createArtist_def Let_def)
next
  case (CreateCustomer newID name)
  then show ?thesis using assms by (auto simp: createCustomer_def Let_def)
next
  case (CreateCommission newID aID cID)
  then show ?thesis using assms
    by (auto simp: createCommission_def Let_def split: option.splits if_splits)
next
  case (Lifecycle op k')
  have art: "artists (snd (perform s op k')) = artists s"
    by (cases op)
      (auto simp: acceptCommission_def rejectCommission_def submitArtwork_def
        requestRevision_def approveCommission_def cancelCommission_def Let_def
        split: option.splits)
  have com: "0 \<le> remaining_revision c" if after: "commissions (snd (perform s op k')) k = Some c"
    for k c
  proof -
    obtain c0 where before: "commissions s k = Some c0"
      using perform_dom [OF after] by blast
    have "0 \<le> remaining_revision c0" using assms(2) before by blast
    then show ?thesis
      using perform_remaining_revision [OF before after] by auto
  qed
  show ?thesis using Lifecycle art com assms(1) by auto
qed

text \<open>
  C4 on the code: \<open>createArtist\<close> takes a budget of \<open>-1\<close>, a value of the interface type.
  The commission created for that artist is in a reachable state with
  \<open>remaining_revision = -1\<close>, and after accept and submit \<open>requestRevision\<close> passes the
  test \<open>remaining_revision = 0\<close> and stores \<open>-2\<close>.
\<close>

theorem negative_budget_run:
  "well_typed (CreateArtist ann ''Ann'' 100 (- 1))
   \<and> reachable n_submitted
   \<and> commissions n_pending k1 = Some (c_pending\<lparr>remaining_revision := - 1\<rparr>)
   \<and> commissions n_submitted k1 = Some (c_submitted\<lparr>remaining_revision := - 1\<rparr>)
   \<and> requestRevision n_submitted k1 =
       (Inr (c_revised\<lparr>remaining_revision := - 2\<rparr>),
        n_submitted\<lparr>commissions :=
          (commissions n_submitted)(k1 \<mapsto> c_revised\<lparr>remaining_revision := - 2\<rparr>)\<rparr>)"
proof -
  have p: "commissions n_pending k1 = Some (c_pending\<lparr>remaining_revision := - 1\<rparr>)"
    by (simp add: n_pending_def n_registered_def createCommission_def createCustomer_def
        createArtist_def init_def ann_def cy_def k1_def c_pending_def Let_def)
  have s: "commissions n_submitted k1 = Some (c_submitted\<lparr>remaining_revision := - 1\<rparr>)"
    by (simp add: n_submitted_def acceptCommission_def submitArtwork_def p
        checkCommissionValidity_chain scenario_commissions Let_def)
  have r: "requestRevision n_submitted k1 =
       (Inr (c_revised\<lparr>remaining_revision := - 2\<rparr>),
        n_submitted\<lparr>commissions :=
          (commissions n_submitted)(k1 \<mapsto> c_revised\<lparr>remaining_revision := - 2\<rparr>)\<rparr>)"
    by (simp add: requestRevision_def s checkCommissionValidity_chain scenario_commissions
        Let_def)
  have w: "well_typed (CreateArtist ann ''Ann'' 100 (- 1))"
    by (simp add: int8_def)
  have "reachable (exec init (CreateArtist ann ''Ann'' 100 (- 1)))"
    by (rule reachable_exec [OF reachable_init w])
  then have "reachable (exec (exec init (CreateArtist ann ''Ann'' 100 (- 1)))
                          (CreateCustomer cy ''Cy''))"
    by (rule reachable_exec) simp
  then have "reachable n_registered"
    by (simp add: n_registered_def)
  then have "reachable (exec n_registered (CreateCommission k1 ann cy))"
    by (rule reachable_exec) simp
  then have "reachable n_pending"
    by (simp add: n_pending_def)
  then have "reachable (snd (perform (snd (perform n_pending Accept k1)) (SubmitArtwork ''u1'') k1))"
    by (intro reachable_lifecycle)
  then have "reachable n_submitted"
    by (simp add: n_submitted_def)
  with w p s r show ?thesis by blast
qed

section \<open>Arguments that are empty\<close>

text \<open>
  C5 on the code: \<open>createArtist\<close> and \<open>createCustomer\<close> of \<^verbatim>\<open>src/index.ts\<close> have no
  check of their arguments and no error result. Called with the empty name they return
  the new record and insert it: the map that was empty has one key afterwards.
\<close>

theorem create_with_empty_name_run:
  "createArtist init ann '''' 100 1 =
     (\<lparr>Artist.artistID = ann, artistName = '''', Artist.price = 100, number_of_revision = 1\<rparr>,
      init\<lparr>artists := [ann \<mapsto> \<lparr>Artist.artistID = ann, artistName = '''', Artist.price = 100,
                                 number_of_revision = 1\<rparr>]\<rparr>)
   \<and> dom (artists init) = {}
   \<and> dom (artists (snd (createArtist init ann '''' 100 1))) = {ann}
   \<and> createCustomer init cy '''' =
     (\<lparr>Customer.customerID = cy, customerName = ''''\<rparr>,
      init\<lparr>customers := [cy \<mapsto> \<lparr>Customer.customerID = cy, customerName = ''''\<rparr>]\<rparr>)
   \<and> dom (customers init) = {}
   \<and> dom (customers (snd (createCustomer init cy '''')) ) = {cy}"
  by (simp add: createArtist_def createCustomer_def init_def Let_def)

text \<open>
  The copy of the two functions in \<^verbatim>\<open>src/smartcontract/index.ts\<close> does what C5 says:
  with the empty name it returns \<open>InvalidInput\<close> and the maps are as they were.
\<close>

lemma create_sc_empty_name:
  "createArtist_sc s newID '''' p n =
     (Inl (InvalidInput ''Missing required fields in the artist object''), s)"
  "createCustomer_sc s newID '''' =
     (Inl (InvalidInput ''Missing required fields in the customer object''), s)"
  by (simp_all add: createArtist_sc_def createCustomer_sc_def)

text \<open>
  C6 on the code: \<open>submitArtwork\<close> of \<^verbatim>\<open>src/index.ts\<close> does not look at the url.
  On the accepted commission of the scenario the empty url is stored and
  \<open>ArtworkSubmitted\<close> is set.
\<close>

theorem submitArtwork_empty_url_run:
  "commissions s_accepted k1 = Some c_accepted
   \<and> checkCommissionValidity (status c_accepted) ''submit artwork'' = ''valid''
   \<and> submitArtwork s_accepted k1 '''' =
       (Inr (c_accepted\<lparr>artURL := '''',
                        status := (status c_accepted)\<lparr>ArtworkSubmitted := True\<rparr>\<rparr>),
        s_accepted\<lparr>commissions := (commissions s_accepted)
          (k1 \<mapsto> c_accepted\<lparr>artURL := '''',
                              status := (status c_accepted)\<lparr>ArtworkSubmitted := True\<rparr>\<rparr>)\<rparr>)"
  by (simp add: submitArtwork_def s_accepted_k1 checkCommissionValidity_chain Let_def)
    (simp add: scenario_commissions)

text \<open>
  The second half of C6 holds on the code for every url, and the copy of the function
  in \<^verbatim>\<open>src/smartcontract/index.ts\<close> refuses the empty one.
\<close>

lemma submitArtwork_permitted:
  assumes "commissions s k = Some c"
    and "checkCommissionValidity (status c) ''submit artwork'' = ''valid''"
  shows "submitArtwork s k url =
           (Inr (c\<lparr>artURL := url, status := (status c)\<lparr>ArtworkSubmitted := True\<rparr>\<rparr>),
            s\<lparr>commissions := (commissions s)
              (k \<mapsto> c\<lparr>artURL := url, status := (status c)\<lparr>ArtworkSubmitted := True\<rparr>\<rparr>)\<rparr>)"
  using assms by (simp add: submitArtwork_def Let_def)

lemma submitArtwork_sc_checks_url:
  assumes "commissions s k = Some c"
    and "checkCommissionValidity (status c) ''submit artwork'' = ''valid''"
  shows "submitArtwork_sc s k '''' =
           (Inl (InvalidInput ''Missing required fields in the artwork object''), s)"
    and "url \<noteq> '''' \<Longrightarrow> submitArtwork_sc s k url = submitArtwork s k url"
  using assms by (simp_all add: submitArtwork_sc_def submitArtwork_def Let_def)

end
